theory Spec2Isabelle
  imports Complex_Main
begin

section \<open>The income projection of \<^verbatim>\<open>src/main.py\<close>\<close>

text \<open>
  The program projects the yearly net income of an office worker and of a freelancer over
  an age range (\<^verbatim>\<open>calculate_annual_income\<close>) and accumulates both series
  (\<^verbatim>\<open>calculate_cumulative_income\<close>).

  Conventions of the embedding.
  \<^item> The parameter dictionary is a record with one field per key the function reads, plus
    \<^verbatim>\<open>deduction_rate_employee\<close>, which \<^verbatim>\<open>main\<close> supplies and the function never reads.
    The ages are Python integers (\<open>int\<close>); the growth type is a string; every other value
    is a Python number, read as a \<open>real\<close>: IEEE rounding, overflow and NaN are not modelled.
  \<^item> An exception is a value \<open>Inl e\<close> of \<open>py_error + 'a\<close>.
  \<^item> The calls of \<^verbatim>\<open>print\<close> are left out.
\<close>

subsection \<open>Parameters and errors\<close>

record params =
  age_start :: int
  age_end :: int
  deduction_rate_employee :: real
  deduction_rate_freelance :: real
  freelance_expense_rate :: real
  office_initial_monthly_net_salary :: real
  office_bonus_months :: real
  office_raise_rate :: real
  freelance_learning_period_months :: real
  freelance_initial_hourly_wage :: real
  freelance_target_hourly_wage :: real
  freelance_target_reach_years :: real
  freelance_hourly_wage_growth_type :: string
  freelance_post_target_raise_rate :: real
  freelance_work_hours_per_day :: real
  freelance_work_days_per_month :: real

datatype py_error = ZeroDivisionError | TypeError

subsection \<open>Python and numpy primitives\<close>

text \<open>True division \<^verbatim>\<open>x / y\<close> of Python numbers raises on a zero divisor.\<close>

definition py_div :: "real \<Rightarrow> real \<Rightarrow> py_error + real" where
  "py_div x y = (if y = 0 then Inl ZeroDivisionError else Inr (x / y))"

text \<open>
  \<^verbatim>\<open>x ** y\<close> where one operand is a float. Anything to the power 0 is 1; zero to a negative
  power raises; a negative base with a fractional exponent gives a \<^verbatim>\<open>complex\<close>, and
  a complex reaches only \<^verbatim>\<open>income_freelance[i] = net_income\<close> (products with floats stay
  complex), where numpy refuses to store it in a float array with a TypeError: the model
  raises that TypeError here.
\<close>

definition py_pow :: "real \<Rightarrow> real \<Rightarrow> py_error + real" where
  "py_pow x y =
     (if y = 0 then Inr 1
      else if x = 0 then (if y < 0 then Inl ZeroDivisionError else Inr 0)
      else if x < 0 then (if of_int \<lfloor>y\<rfloor> = y then Inr (x powi \<lfloor>y\<rfloor>) else Inl TypeError)
      else Inr (x powr y))"

text \<open>\<^verbatim>\<open>np.arange(start, stop)\<close> on integers: \<open>start, ..., stop - 1\<close>, empty when \<open>stop \<le> start\<close>.\<close>

definition np_arange :: "int \<Rightarrow> int \<Rightarrow> int list" where
  "np_arange start stop = [start..stop - 1]"

text \<open>\<^verbatim>\<open>np.zeros(n, dtype=float)\<close>.\<close>

definition np_zeros :: "nat \<Rightarrow> real list" where
  "np_zeros n = replicate n 0"

text \<open>\<^verbatim>\<open>np.cumsum\<close>: the running sum, carried from left to right.\<close>

fun cumsum_from :: "real \<Rightarrow> real list \<Rightarrow> real list" where
  "cumsum_from acc [] = []"
| "cumsum_from acc (x # xs) = (acc + x) # cumsum_from (acc + x) xs"

definition np_cumsum :: "real list \<Rightarrow> real list" where
  "np_cumsum xs = cumsum_from 0 xs"

subsection \<open>The office worker's loop (lines 44 to 50)\<close>

text \<open>
  The state of the loop is \<^verbatim>\<open>current_monthly_salary\<close> and the array
  \<^verbatim>\<open>income_office\<close>; the list is the range the loop runs over.
\<close>

fun office_loop :: "real \<Rightarrow> real \<Rightarrow> nat list \<Rightarrow> real \<times> real list \<Rightarrow> real \<times> real list" where
  "office_loop bonus_months raise_rate [] st = st"
| "office_loop bonus_months raise_rate (i # is) (current_monthly_salary, income_office) =
     office_loop bonus_months raise_rate is
       (current_monthly_salary * (1 + raise_rate),
        income_office[i := current_monthly_salary * (12 + bonus_months)])"

subsection \<open>The freelancer's loop (lines 52 to 80)\<close>

text \<open>The ratio of the ramp (line 67): the division is guarded by the conditional expression.\<close>

definition ramp_ratio :: "params \<Rightarrow> real \<Rightarrow> py_error + real" where
  "ramp_ratio p work_years =
     (if freelance_target_reach_years p > 0
      then (case py_div work_years (freelance_target_reach_years p) of
              Inl e \<Rightarrow> Inl e
            | Inr q \<Rightarrow> py_pow q 2)
      else Inr 1)"

text \<open>The branch \<^verbatim>\<open>work_years <= fl_target_years\<close> (lines 66 to 68).\<close>

definition ramp_wage :: "params \<Rightarrow> real \<Rightarrow> py_error + real" where
  "ramp_wage p work_years =
     (case ramp_ratio p work_years of
        Inl e \<Rightarrow> Inl e
      | Inr ratio \<Rightarrow>
          Inr (freelance_initial_hourly_wage p +
               (freelance_target_hourly_wage p - freelance_initial_hourly_wage p) * ratio))"

text \<open>The \<^verbatim>\<open>else\<close> branch (lines 70 and 71).\<close>

definition post_target_wage :: "params \<Rightarrow> real \<Rightarrow> py_error + real" where
  "post_target_wage p work_years =
     (let years_after_target = work_years - freelance_target_reach_years p in
      case py_pow (1 + freelance_post_target_raise_rate p) years_after_target of
        Inl e \<Rightarrow> Inl e
      | Inr g \<Rightarrow> Inr (freelance_target_hourly_wage p * g))"

text \<open>Lines 65 to 71: the hourly wage after \<open>work_years\<close> years of work.\<close>

definition current_hourly_wage :: "params \<Rightarrow> real \<Rightarrow> py_error + real" where
  "current_hourly_wage p work_years =
     (if work_years \<le> freelance_target_reach_years p
      then ramp_wage p work_years
      else post_target_wage p work_years)"

text \<open>Lines 73 to 78: from the hourly wage to the net income of the year.\<close>

definition net_income :: "params \<Rightarrow> real \<Rightarrow> real" where
  "net_income p hourly_wage =
     (let annual_gross =
            hourly_wage * freelance_work_hours_per_day p * freelance_work_days_per_month p * 12;
          taxable_income = annual_gross * (1 - freelance_expense_rate p)
      in taxable_income * (1 - deduction_rate_freelance p))"

text \<open>The body of the loop for the index \<open>i\<close>: the value stored in \<^verbatim>\<open>income_freelance[i]\<close>.\<close>

definition freelance_year :: "params \<Rightarrow> nat \<Rightarrow> py_error + real" where
  "freelance_year p i =
     (let learning_period_years = freelance_learning_period_months p / 12;
          years_since_start = real i
      in if years_since_start < of_int \<lceil>learning_period_years\<rceil> then Inr 0
         else (case current_hourly_wage p (years_since_start - learning_period_years) of
                 Inl e \<Rightarrow> Inl e
               | Inr w \<Rightarrow> Inr (net_income p w)))"

fun freelance_loop :: "params \<Rightarrow> nat list \<Rightarrow> real list \<Rightarrow> py_error + real list" where
  "freelance_loop p [] income_freelance = Inr income_freelance"
| "freelance_loop p (i # is) income_freelance =
     (case freelance_year p i of
        Inl e \<Rightarrow> Inl e
      | Inr v \<Rightarrow> freelance_loop p is (income_freelance[i := v]))"

subsection \<open>The two entry points\<close>

definition years :: "params \<Rightarrow> int list" where
  "years p = np_arange (age_start p) (age_end p + 1)"

definition num_years :: "params \<Rightarrow> nat" where
  "num_years p = length (years p)"

definition income_office :: "params \<Rightarrow> real list" where
  "income_office p =
     snd (office_loop (office_bonus_months p) (office_raise_rate p) [0..<num_years p]
            (office_initial_monthly_net_salary p, np_zeros (num_years p)))"

definition income_freelance :: "params \<Rightarrow> py_error + real list" where
  "income_freelance p = freelance_loop p [0..<num_years p] (np_zeros (num_years p))"

definition calculate_annual_income :: "params \<Rightarrow> py_error + (int list \<times> real list \<times> real list)" where
  "calculate_annual_income p =
     (case income_freelance p of
        Inl e \<Rightarrow> Inl e
      | Inr fl \<Rightarrow> Inr (years p, income_office p, fl))"

definition calculate_cumulative_income ::
    "int list \<Rightarrow> real list \<Rightarrow> real list \<Rightarrow> real list \<times> real list" where
  "calculate_cumulative_income ys office freelance = (np_cumsum office, np_cumsum freelance)"

subsection \<open>Inputs and reference formulas\<close>

text \<open>
  The parameters that \<^verbatim>\<open>main\<close> builds (lines 160 to 187), without the keys that
  \<^verbatim>\<open>calculate_annual_income\<close> never reads (apart from \<^verbatim>\<open>deduction_rate_employee\<close>).
\<close>

definition main_params :: params where
  "main_params =
     \<lparr> age_start = 22, age_end = 60,
       deduction_rate_employee = 0.2,
       deduction_rate_freelance = 0.25,
       freelance_expense_rate = 0.1,
       office_initial_monthly_net_salary = 200000,
       office_bonus_months = 2,
       office_raise_rate = 0.02,
       freelance_learning_period_months = 6,
       freelance_initial_hourly_wage = 1500,
       freelance_target_hourly_wage = 8000,
       freelance_target_reach_years = 5,
       freelance_hourly_wage_growth_type = ''quadratic'',
       freelance_post_target_raise_rate = 0.01,
       freelance_work_hours_per_day = 8,
       freelance_work_days_per_month = 20 \<rparr>"

text \<open>
  The office recurrence as the specification words it (section 4.2): the monthly salary
  of year 0 is the initial salary, and each year multiplies it by one plus the raise rate.
\<close>

primrec spec_monthly_salary :: "params \<Rightarrow> nat \<Rightarrow> real" where
  "spec_monthly_salary p 0 = office_initial_monthly_net_salary p"
| "spec_monthly_salary p (Suc i) = spec_monthly_salary p i * (1 + office_raise_rate p)"

text \<open>
  The closed form the specification gives for the office income of year \<open>i\<close> (section 5).
\<close>

definition spec_office_closed_form :: "params \<Rightarrow> nat \<Rightarrow> real" where
  "spec_office_closed_form p i =
     office_initial_monthly_net_salary p * (1 + office_raise_rate p) ^ i * (12 + office_bonus_months p)"

section \<open>Facts about the primitives and the loops\<close>

subsection \<open>Power, range and running sum\<close>

lemma py_pow_2: "py_pow x 2 = Inr (x\<^sup>2)"
  by (simp add: py_pow_def)

lemma py_pow_0: "py_pow x 0 = Inr 1"
  by (simp add: py_pow_def)


lemma py_pow_Inl: "py_pow x y = Inl e \<Longrightarrow> 0 \<le> y \<Longrightarrow> e = TypeError \<and> x < 0 \<and> of_int \<lfloor>y\<rfloor> \<noteq> y"
  by (auto simp: py_pow_def split: if_splits)

lemma length_np_arange: "length (np_arange a b) = nat (b - a)"
  by (simp add: np_arange_def)

lemma nth_np_arange: "i < nat (b - a) \<Longrightarrow> np_arange a b ! i = a + int i"
  by (simp add: np_arange_def)

lemma years_eq: "years p = [age_start p..age_end p]"
  by (simp add: years_def np_arange_def)

lemma num_years_eq: "num_years p = nat (age_end p - age_start p + 1)"
  by (simp add: num_years_def years_def length_np_arange)

lemma upt_0_2: "[0..<2] = [0, Suc 0]"
  by (simp add: numeral_2_eq_2)

lemma length_cumsum_from: "length (cumsum_from a xs) = length xs"
  by (induction xs arbitrary: a) simp_all

lemma nth_cumsum_from:
  "i < length xs \<Longrightarrow> cumsum_from a xs ! i = a + sum_list (take (Suc i) xs)"
proof (induction xs arbitrary: a i)
  case Nil
  then show ?case by simp
next
  case (Cons x xs)
  show ?case
  proof (cases i)
    case 0
    then show ?thesis by simp
  next
    case (Suc j)
    with Cons.prems have "j < length xs" by simp
    from Cons.IH [OF this, of "a + x"] Suc show ?thesis by (simp add: add.assoc)
  qed
qed

lemma sum_list_take_Suc: "i < length xs \<Longrightarrow> sum_list (take (Suc i) xs) = (\<Sum>j\<le>i. xs ! j)"
proof (induction i)
  case 0
  then show ?case by (simp add: take_Suc_conv_app_nth)
next
  case (Suc i)
  then have "sum_list (take (Suc i) xs) = (\<Sum>j\<le>i. xs ! j)" by simp
  with Suc.prems show ?case by (simp add: take_Suc_conv_app_nth [of "Suc i"])
qed

lemma length_np_cumsum: "length (np_cumsum xs) = length xs"
  by (simp add: np_cumsum_def length_cumsum_from)

lemma nth_np_cumsum: "i < length xs \<Longrightarrow> np_cumsum xs ! i = (\<Sum>j\<le>i. xs ! j)"
  by (simp add: np_cumsum_def nth_cumsum_from sum_list_take_Suc del: take_Suc)

subsection \<open>The office loop\<close>

text \<open>
  The loop runs over \<open>[k..<n]\<close> with the salary \<open>c\<close> on entry: it stores
  \<open>c * (1 + r) ^ (i - k) * (12 + b)\<close> at every index \<open>i\<close> of the range and leaves the rest
  of the array alone. The indices of the range are inside the array, as in the source,
  where the array has \<^verbatim>\<open>num_years\<close> cells and the range is \<^verbatim>\<open>range(num_years)\<close>.
\<close>

lemma length_office_loop:
  "length (snd (office_loop b r js st)) = length (snd st)"
  by (induction b r js st rule: office_loop.induct) simp_all

lemma nth_office_loop:
  "i < length arr \<Longrightarrow>
   snd (office_loop b r [k..<n] (c, arr)) ! i =
     (if k \<le> i \<and> i < n then c * (1 + r) ^ (i - k) * (12 + b) else arr ! i)"
proof (induction "n - k" arbitrary: k c arr)
  case 0
  then show ?case by simp
next
  case (Suc d)
  then have kn: "k < n" and d: "d = n - Suc k" by simp_all
  have len: "i < length (arr[k := c * (12 + b)])" using Suc.prems by simp
  have step: "office_loop b r [k..<n] (c, arr) =
      office_loop b r [Suc k..<n] (c * (1 + r), arr[k := c * (12 + b)])"
    using kn by (simp add: upt_conv_Cons)
  show ?case
  proof (cases "i = k")
    case True
    then show ?thesis using Suc.hyps(1) [OF d len] step kn Suc.prems by simp
  next
    case False
    show ?thesis
    proof (cases "Suc k \<le> i \<and> i < n")
      case True
      then have "(1 + r) ^ (i - k) = (1 + r) * (1 + r) ^ (i - Suc k)"
        by (metis Suc_diff_le diff_Suc_Suc power_Suc)
      then show ?thesis using Suc.hyps(1) [OF d len] step True by simp
    next
      case F2: False
      then show ?thesis using Suc.hyps(1) [OF d len] step False by auto
    qed
  qed
qed

lemma length_income_office: "length (income_office p) = num_years p"
  by (simp add: income_office_def length_office_loop np_zeros_def)

lemma nth_income_office:
  "i < num_years p \<Longrightarrow>
   income_office p ! i =
     office_initial_monthly_net_salary p * (1 + office_raise_rate p) ^ i * (12 + office_bonus_months p)"
  by (simp add: income_office_def nth_office_loop np_zeros_def)

lemma spec_monthly_salary_eq:
  "spec_monthly_salary p i = office_initial_monthly_net_salary p * (1 + office_raise_rate p) ^ i"
  by (induction i) simp_all


subsection \<open>The hourly wage\<close>

lemma ramp_ratio_eq:
  "ramp_ratio p wy =
     Inr (if freelance_target_reach_years p > 0 then (wy / freelance_target_reach_years p)\<^sup>2 else 1)"
  by (simp add: ramp_ratio_def py_div_def py_pow_2)

lemma ramp_wage_eq:
  "ramp_wage p wy =
     Inr (freelance_initial_hourly_wage p +
          (freelance_target_hourly_wage p - freelance_initial_hourly_wage p) *
          (if freelance_target_reach_years p > 0 then (wy / freelance_target_reach_years p)\<^sup>2 else 1))"
  by (simp add: ramp_wage_def ramp_ratio_eq)

lemma post_target_wage_boundary:
  "post_target_wage p (freelance_target_reach_years p) = Inr (freelance_target_hourly_wage p)"
  by (simp add: post_target_wage_def py_pow_0)

lemma negative_target_years_post_target:
  "freelance_target_reach_years p < 0 \<Longrightarrow> 0 \<le> work_years \<Longrightarrow>
   current_hourly_wage p work_years = post_target_wage p work_years"
  by (simp add: current_hourly_wage_def)

lemma current_hourly_wage_Inl:
  assumes "current_hourly_wage p wy = Inl e"
  shows "e = TypeError \<and> freelance_post_target_raise_rate p < - 1 \<and> freelance_target_reach_years p < wy"
proof -
  from assms have gt: "freelance_target_reach_years p < wy"
    and post: "post_target_wage p wy = Inl e"
    by (auto simp: current_hourly_wage_def ramp_wage_eq split: if_splits)
  from post have "py_pow (1 + freelance_post_target_raise_rate p) (wy - freelance_target_reach_years p) = Inl e"
    by (simp add: post_target_wage_def Let_def split: sum.splits)
  from py_pow_Inl [OF this] gt show ?thesis by simp
qed

lemma current_hourly_wage_no_division_fault:
  "current_hourly_wage p work_years \<noteq> Inl ZeroDivisionError"
  using current_hourly_wage_Inl [of p work_years ZeroDivisionError] by auto



text \<open>
  Beyond the agreement of the two formulas at the boundary: when the post-target rate is
  above \<open>- 1\<close>, the hourly wage is a total function of the work years, continuous at the
  boundary in the topological sense.
\<close>

lemma wage_curve_continuous:
  assumes ty: "0 < freelance_target_reach_years p"
    and rate: "- 1 < freelance_post_target_raise_rate p"
  shows "\<exists>f. (\<forall>work_years. current_hourly_wage p work_years = Inr (f work_years)) \<and>
             isCont f (freelance_target_reach_years p)"
proof -
  define T where "T = freelance_target_reach_years p"
  define b where "b = 1 + freelance_post_target_raise_rate p"
  define ramp where "ramp = (\<lambda>x. freelance_initial_hourly_wage p +
      (freelance_target_hourly_wage p - freelance_initial_hourly_wage p) * (x / T)\<^sup>2)"
  define post where "post = (\<lambda>x. freelance_target_hourly_wage p * b powr (x - T))"
  have b: "0 < b" using rate by (simp add: b_def)
  have T: "0 < T" using ty by (simp add: T_def)
  define f where "f = (\<lambda>x. if x \<le> T then ramp x else post x)"
  have eq: "current_hourly_wage p x = Inr (f x)" for x
    using b T
    by (simp add: current_hourly_wage_def ramp_wage_eq post_target_wage_def py_pow_def
        T_def [symmetric] b_def [symmetric] ramp_def post_def f_def)
  have "continuous (at_left T) ramp"
    unfolding ramp_def by (intro continuous_intros) (use T in simp)
  moreover have "isCont post T"
    unfolding post_def by (intro continuous_intros) (use b in simp)
  then have "(post \<longlongrightarrow> post T) (at_right T)"
    by (simp add: isCont_def filterlim_at_split)
  then have "(post \<longlongrightarrow> ramp T) (at_right T)"
    using T b by (simp add: post_def ramp_def)
  ultimately have "isCont f T"
    unfolding f_def by (rule isCont_If_ge)
  with eq have "(\<forall>x. current_hourly_wage p x = Inr (f x)) \<and> isCont f (freelance_target_reach_years p)"
    by (simp add: T_def)
  then show ?thesis by (rule exI [of _ f])
qed

subsection \<open>The freelance loop\<close>



lemma freelance_year_Inl:
  "freelance_year p i = Inl e \<Longrightarrow> e = TypeError \<and> freelance_post_target_raise_rate p < - 1"
  by (auto simp: freelance_year_def Let_def split: if_splits sum.splits dest: current_hourly_wage_Inl)


lemma freelance_loop_Inl:
  "freelance_loop p js arr = Inl e \<Longrightarrow> \<exists>i\<in>set js. freelance_year p i = Inl e"
  by (induction js arbitrary: arr) (auto split: sum.splits)

lemma freelance_loop_returns:
  "(\<And>i e. i \<in> set js \<Longrightarrow> freelance_year p i \<noteq> Inl e) \<Longrightarrow> \<exists>arr'. freelance_loop p js arr = Inr arr'"
proof (induction js arbitrary: arr)
  case Nil
  then show ?case by simp
next
  case (Cons j js)
  from Cons.prems [of j] obtain v where v: "freelance_year p j = Inr v"
    by (cases "freelance_year p j") auto
  from Cons.IH [of "arr[j := v]"] Cons.prems v show ?case by simp
qed

lemma length_freelance_loop:
  "freelance_loop p js arr = Inr arr' \<Longrightarrow> length arr' = length arr"
  by (induction js arbitrary: arr) (auto split: sum.splits)

lemma nth_freelance_loop:
  "freelance_loop p js arr = Inr arr' \<Longrightarrow> distinct js \<Longrightarrow> i < length arr \<Longrightarrow>
   (if i \<in> set js then freelance_year p i = Inr (arr' ! i) else arr' ! i = arr ! i)"
proof (induction js arbitrary: arr)
  case Nil
  then show ?case by simp
next
  case (Cons j js)
  from Cons.prems(1) obtain v where v: "freelance_year p j = Inr v"
    and rest: "freelance_loop p js (arr[j := v]) = Inr arr'"
    by (auto split: sum.splits)
  from Cons.prems have d: "distinct js" and len: "i < length (arr[j := v])" and nj: "j \<notin> set js"
    by simp_all
  from Cons.IH [OF rest d len] v nj Cons.prems(3) show ?case
    by (cases "i = j") (auto split: if_splits)
qed

lemma length_income_freelance: "income_freelance p = Inr fl \<Longrightarrow> length fl = num_years p"
  by (auto simp: income_freelance_def np_zeros_def dest: length_freelance_loop)

lemma nth_income_freelance:
  "income_freelance p = Inr fl \<Longrightarrow> i < num_years p \<Longrightarrow> freelance_year p i = Inr (fl ! i)"
  using nth_freelance_loop [of p "[0..<num_years p]" "np_zeros (num_years p)" fl i]
  by (simp add: income_freelance_def np_zeros_def)

lemma income_freelance_returns:
  assumes "- 1 \<le> freelance_post_target_raise_rate p"
  shows "\<exists>fl. income_freelance p = Inr fl"
  unfolding income_freelance_def
proof (rule freelance_loop_returns)
  fix i e
  show "freelance_year p i \<noteq> Inl e"
    using freelance_year_Inl [of p i e] assms by auto
qed

subsection \<open>The result of the projection\<close>

lemma calculate_annual_income_Inr:
  "calculate_annual_income p = Inr (ys, off, fl) \<longleftrightarrow>
   ys = years p \<and> off = income_office p \<and> income_freelance p = Inr fl"
  by (auto simp: calculate_annual_income_def split: sum.splits)

lemma calculate_annual_income_Inl:
  "calculate_annual_income p = Inl e \<Longrightarrow> e = TypeError \<and> freelance_post_target_raise_rate p < - 1"
  by (auto simp: calculate_annual_income_def income_freelance_def split: sum.splits
      dest!: freelance_loop_Inl freelance_year_Inl)

lemma calculate_annual_income_no_division_fault:
  "calculate_annual_income p \<noteq> Inl ZeroDivisionError"
  using calculate_annual_income_Inl [of p ZeroDivisionError] by auto

lemma calculate_annual_income_returns:
  assumes "- 1 \<le> freelance_post_target_raise_rate p"
  shows "\<exists>fl. calculate_annual_income p = Inr (years p, income_office p, fl)"
  using income_freelance_returns [OF assms] by (auto simp: calculate_annual_income_def)

lemma reversed_ages_empty:
  assumes "age_end p < age_start p"
  shows "calculate_annual_income p = Inr ([], [], [])"
proof -
  from assms have n: "num_years p = 0" by (simp add: num_years_eq)
  from assms have y: "years p = []" by (simp add: years_eq)
  show ?thesis
    by (simp add: calculate_annual_income_def income_freelance_def income_office_def n y np_zeros_def)
qed

subsection \<open>Fields the projection does not read\<close>

lemma years_employee_rate: "years (p\<lparr>deduction_rate_employee := d\<rparr>) = years p"
  by (simp add: years_def)

lemma income_office_employee_rate:
  "income_office (p\<lparr>deduction_rate_employee := d\<rparr>) = income_office p"
  by (simp add: income_office_def num_years_def years_def)

lemma freelance_year_employee_rate:
  "freelance_year (p\<lparr>deduction_rate_employee := d\<rparr>) i = freelance_year p i"
  by (simp add: freelance_year_def current_hourly_wage_def ramp_wage_def ramp_ratio_def
      post_target_wage_def net_income_def Let_def cong: if_cong sum.case_cong)

lemma freelance_loop_employee_rate:
  "freelance_loop (p\<lparr>deduction_rate_employee := d\<rparr>) js arr = freelance_loop p js arr"
  by (induction js arbitrary: arr)
    (simp_all add: freelance_year_employee_rate cong: sum.case_cong)

lemma calculate_annual_income_employee_rate:
  "calculate_annual_income (p\<lparr>deduction_rate_employee := d\<rparr>) = calculate_annual_income p"
  by (simp add: calculate_annual_income_def income_freelance_def freelance_loop_employee_rate
      income_office_employee_rate years_employee_rate num_years_def cong: sum.case_cong)

lemma years_growth_type: "years (p\<lparr>freelance_hourly_wage_growth_type := g\<rparr>) = years p"
  by (simp add: years_def)

lemma income_office_growth_type:
  "income_office (p\<lparr>freelance_hourly_wage_growth_type := g\<rparr>) = income_office p"
  by (simp add: income_office_def num_years_def years_def)

lemma freelance_year_growth_type:
  "freelance_year (p\<lparr>freelance_hourly_wage_growth_type := g\<rparr>) i = freelance_year p i"
  by (simp add: freelance_year_def current_hourly_wage_def ramp_wage_def ramp_ratio_def
      post_target_wage_def net_income_def Let_def cong: if_cong sum.case_cong)

lemma freelance_loop_growth_type:
  "freelance_loop (p\<lparr>freelance_hourly_wage_growth_type := g\<rparr>) js arr = freelance_loop p js arr"
  by (induction js arbitrary: arr)
    (simp_all add: freelance_year_growth_type cong: sum.case_cong)

lemma calculate_annual_income_growth_type:
  "calculate_annual_income (p\<lparr>freelance_hourly_wage_growth_type := g\<rparr>) = calculate_annual_income p"
  by (simp add: calculate_annual_income_def income_freelance_def freelance_loop_growth_type
      income_office_growth_type years_growth_type num_years_def cong: sum.case_cong)

subsection \<open>The projection on concrete parameters\<close>

text \<open>
  The default parameters cut to the ages 22 and 23: the first year lies in the learning
  period, the second is half a year into the ramp.
\<close>

lemma two_years_num_years: "num_years (main_params\<lparr>age_end := 23\<rparr>) = 2"
  by (simp add: num_years_eq main_params_def)

lemma two_years_office: "income_office (main_params\<lparr>age_end := 23\<rparr>) = [2800000, 2856000]"
  by (simp add: income_office_def two_years_num_years upt_0_2 np_zeros_def numeral_2_eq_2)
     (simp add: main_params_def)

lemma two_years_freelance_0: "freelance_year (main_params\<lparr>age_end := 23\<rparr>) 0 = Inr 0"
  by (simp add: freelance_year_def main_params_def)

lemma two_years_freelance_1: "freelance_year (main_params\<lparr>age_end := 23\<rparr>) (Suc 0) = Inr 2028240"
  by (simp add: freelance_year_def main_params_def current_hourly_wage_def ramp_wage_eq net_income_def power2_eq_square)

lemma two_years_freelance: "income_freelance (main_params\<lparr>age_end := 23\<rparr>) = Inr [0, 2028240]"
  by (simp add: income_freelance_def two_years_num_years upt_0_2 np_zeros_def numeral_2_eq_2
      two_years_freelance_0 two_years_freelance_1)

lemma two_years:
  "calculate_annual_income (main_params\<lparr>age_end := 23\<rparr>) =
     Inr ([22, 23], [2800000, 2856000], [0, 2028240])"
  by (simp add: calculate_annual_income_def two_years_freelance two_years_office years_eq)
     (simp add: main_params_def)

lemma two_years_wage: "current_hourly_wage (main_params\<lparr>age_end := 23\<rparr>) (1 / 2) = Inr 1565"
  by (simp add: current_hourly_wage_def ramp_wage_eq main_params_def power2_eq_square)

lemma two_years_net: "net_income (main_params\<lparr>age_end := 23\<rparr>) 1565 = 2028240"
  by (simp add: net_income_def main_params_def)

text \<open>One year only, and one year with a negative number of years to the target.\<close>

lemma one_year_num_years: "num_years (main_params\<lparr>age_end := 22\<rparr>) = 1"
  by (simp add: num_years_eq main_params_def)

lemma one_year:
  "calculate_annual_income (main_params\<lparr>age_end := 22\<rparr>) = Inr ([22], [2800000], [0])"
proof -
  have "freelance_year (main_params\<lparr>age_end := 22\<rparr>) 0 = Inr 0"
    by (simp add: freelance_year_def main_params_def)
  then have "income_freelance (main_params\<lparr>age_end := 22\<rparr>) = Inr [0]"
    by (simp add: income_freelance_def one_year_num_years np_zeros_def)
  moreover have "income_office (main_params\<lparr>age_end := 22\<rparr>) = [2800000]"
    by (simp add: income_office_def one_year_num_years np_zeros_def) (simp add: main_params_def)
  moreover have "years (main_params\<lparr>age_end := 22\<rparr>) = [22]"
    by (simp add: years_eq) (simp add: main_params_def)
  ultimately show ?thesis by (simp add: calculate_annual_income_def)
qed

lemma negative_target_years_wage:
  "post_target_wage (main_params\<lparr>age_end := 22, freelance_learning_period_months := 0,
       freelance_target_reach_years := - 1\<rparr>) 0 = Inr 8080"
  by (simp add: post_target_wage_def py_pow_def main_params_def)

lemma negative_target_years_result:
  "calculate_annual_income
     (main_params\<lparr>age_end := 22, freelance_learning_period_months := 0,
        freelance_target_reach_years := - 1\<rparr>) = Inr ([22], [2800000], [10471680])"
proof -
  let ?p = "main_params\<lparr>age_end := 22, freelance_learning_period_months := 0,
        freelance_target_reach_years := - 1\<rparr>"
  have n: "num_years ?p = 1" by (simp add: num_years_eq main_params_def)
  have "current_hourly_wage ?p 0 = Inr 8080"
    using negative_target_years_wage by (simp add: current_hourly_wage_def)
  then have "freelance_year ?p 0 = Inr 10471680"
    by (simp add: freelance_year_def) (simp add: net_income_def main_params_def)
  then have "income_freelance ?p = Inr [10471680]"
    by (simp add: income_freelance_def n np_zeros_def)
  moreover have "income_office ?p = [2800000]"
    by (simp add: income_office_def n np_zeros_def) (simp add: main_params_def)
  moreover have "years ?p = [22]"
    by (simp add: years_eq) (simp add: main_params_def)
  ultimately show ?thesis by (simp add: calculate_annual_income_def)
qed


text \<open>
  A post-target rate below \<open>- 1\<close> and half a year after the target: the power is complex
  and the store raises.
\<close>

lemma fractional_power_type_error:
  "calculate_annual_income
     (main_params\<lparr>age_end := 23, freelance_target_reach_years := 0,
        freelance_post_target_raise_rate := - 3\<rparr>) = Inl TypeError"
proof -
  let ?p = "main_params\<lparr>age_end := 23, freelance_target_reach_years := 0,
        freelance_post_target_raise_rate := - 3\<rparr>"
  have n: "num_years ?p = 2" by (simp add: num_years_eq main_params_def)
  have 0: "freelance_year ?p 0 = Inr 0" by (simp add: freelance_year_def main_params_def)
  have 1: "freelance_year ?p (Suc 0) = Inl TypeError"
    by (simp add: freelance_year_def main_params_def current_hourly_wage_def post_target_wage_def
        py_pow_def)
  have "income_freelance ?p = Inl TypeError"
    by (simp add: income_freelance_def n upt_0_2 0 1)
  then show ?thesis by (simp add: calculate_annual_income_def)
qed

section \<open>The claims\<close>

subsection \<open>C1: rejection of invalid configurations\<close>

text \<open>
  Claim C1 says that \<^verbatim>\<open>calculate_annual_income\<close> raises a ConfigurationError when
  \<open>age_start > age_end\<close>, when \<open>freelance_target_reach_years < 0\<close>, or when the
  growth-type discriminator is not recognised. The source validates nothing and defines no
  such exception. What it does instead: with \<open>age_end < age_start\<close> it returns three empty
  series; with a negative number of years to the target every wage of a year of work is
  the post-target formula; the growth type never changes the result. The only exception of
  the model is the TypeError of a complex power, which needs a post-target rate below
  \<open>- 1\<close>; with a rate of at least \<open>- 1\<close> the function returns.
\<close>

theorem no_validation:
  "(age_end p < age_start p \<longrightarrow> calculate_annual_income p = Inr ([], [], [])) \<and>
   (freelance_target_reach_years p < 0 \<longrightarrow> 0 \<le> work_years \<longrightarrow>
      current_hourly_wage p work_years = post_target_wage p work_years) \<and>
   calculate_annual_income (p\<lparr>freelance_hourly_wage_growth_type := g\<rparr>) = calculate_annual_income p \<and>
   (calculate_annual_income p = Inl e \<longrightarrow> e = TypeError \<and> freelance_post_target_raise_rate p < - 1) \<and>
   (- 1 \<le> freelance_post_target_raise_rate p \<longrightarrow> (\<exists>r. calculate_annual_income p = Inr r))"
  using reversed_ages_empty [of p]
    negative_target_years_post_target [where p = p and work_years = work_years]
    calculate_annual_income_growth_type [where p = p and g = g]
    calculate_annual_income_Inl [where p = p and e = e]
    calculate_annual_income_returns [of p]
  by blast

text \<open>The theorem at inputs that satisfy each of its hypotheses.\<close>

theorem no_validation_witness:
  "age_end (main_params\<lparr>age_start := 60, age_end := 22\<rparr>)
     < age_start (main_params\<lparr>age_start := 60, age_end := 22\<rparr>) \<and>
   calculate_annual_income (main_params\<lparr>age_start := 60, age_end := 22\<rparr>) = Inr ([], [], []) \<and>
   freelance_target_reach_years
     (main_params\<lparr>age_end := 22, freelance_learning_period_months := 0,
        freelance_target_reach_years := - 1\<rparr>) < 0 \<and>
   current_hourly_wage
     (main_params\<lparr>age_end := 22, freelance_learning_period_months := 0,
        freelance_target_reach_years := - 1\<rparr>) 0 = Inr 8080 \<and>
   calculate_annual_income
     (main_params\<lparr>age_end := 23, freelance_target_reach_years := 0,
        freelance_post_target_raise_rate := - 3\<rparr>) = Inl TypeError \<and>
   freelance_post_target_raise_rate
     (main_params\<lparr>age_end := 23, freelance_target_reach_years := 0,
        freelance_post_target_raise_rate := - 3\<rparr>) < - 1 \<and>
   - 1 \<le> freelance_post_target_raise_rate (main_params\<lparr>age_end := 23\<rparr>) \<and>
   calculate_annual_income (main_params\<lparr>age_end := 23\<rparr>) =
     Inr ([22, 23], [2800000, 2856000], [0, 2028240])"
proof -
  let ?p1 = "main_params\<lparr>age_start := 60, age_end := 22\<rparr>"
  let ?p2 = "main_params\<lparr>age_end := 22, freelance_learning_period_months := 0,
        freelance_target_reach_years := - 1\<rparr>"
  let ?p3 = "main_params\<lparr>age_end := 23, freelance_target_reach_years := 0,
        freelance_post_target_raise_rate := - 3\<rparr>"
  let ?p4 = "main_params\<lparr>age_end := 23\<rparr>"
  have a: "age_end ?p1 < age_start ?p1" by simp
  have b: "freelance_target_reach_years ?p2 < 0" by simp
  have d: "- 1 \<le> freelance_post_target_raise_rate ?p4" by (simp add: main_params_def)
  from no_validation [where p = ?p1] a have 1: "calculate_annual_income ?p1 = Inr ([], [], [])"
    by blast
  from no_validation [where p = ?p2 and work_years = 0] b have "current_hourly_wage ?p2 0 = post_target_wage ?p2 0"
    by simp
  then have 2: "current_hourly_wage ?p2 0 = Inr 8080"
    by (simp only: negative_target_years_wage)
  from no_validation [where p = ?p3 and e = TypeError] fractional_power_type_error
  have 3: "freelance_post_target_raise_rate ?p3 < - 1" by blast
  from a 1 b 2 fractional_power_type_error 3 d two_years show ?thesis by blast
qed

text \<open>
  The claim as stated fails: reversed ages, a negative number of years to the target and
  the growth type \<open>''cubic''\<close> each give a normal return.
\<close>

theorem config_rejection_counterexample:
  "age_end (main_params\<lparr>age_start := 60, age_end := 22\<rparr>)
     < age_start (main_params\<lparr>age_start := 60, age_end := 22\<rparr>) \<and>
   calculate_annual_income (main_params\<lparr>age_start := 60, age_end := 22\<rparr>) = Inr ([], [], []) \<and>
   freelance_target_reach_years
     (main_params\<lparr>age_end := 22, freelance_learning_period_months := 0,
        freelance_target_reach_years := - 1\<rparr>) < 0 \<and>
   calculate_annual_income
     (main_params\<lparr>age_end := 22, freelance_learning_period_months := 0,
        freelance_target_reach_years := - 1\<rparr>) = Inr ([22], [2800000], [10471680]) \<and>
   calculate_annual_income
     (main_params\<lparr>age_end := 22, freelance_hourly_wage_growth_type := ''cubic''\<rparr>) =
     Inr ([22], [2800000], [0])"
proof -
  have a: "age_end (main_params\<lparr>age_start := 60, age_end := 22\<rparr>)
     < age_start (main_params\<lparr>age_start := 60, age_end := 22\<rparr>)" by simp
  show ?thesis
    using a reversed_ages_empty [OF a] negative_target_years_result
      calculate_annual_income_growth_type
        [where p = "main_params\<lparr>age_end := 22\<rparr>" and g = "''cubic''"] one_year
    by simp
qed

subsection \<open>C2: non-negative incomes\<close>




subsection \<open>C3: the office recurrence\<close>

text \<open>
  Claim C3. When the projection returns, the office income of year \<open>i\<close> is the monthly
  salary of the recurrence times \<open>12 + office_bonus_months\<close>; the result does not depend
  on \<^verbatim>\<open>deduction_rate_employee\<close>; and with an initial salary of 200000, 2 bonus months and
  a raise rate of 0.02 the first year is 2800000 and the second, when there is one,
  \<open>2800000 * 1.02\<close>.
\<close>

theorem office_recurrence:
  assumes "age_start p \<le> age_end p"
    and "calculate_annual_income p = Inr (ys, office, freelance)"
    and "i < length office"
  shows "office ! i = spec_monthly_salary p i * (12 + office_bonus_months p) \<and>
         calculate_annual_income (p\<lparr>deduction_rate_employee := d\<rparr>) = Inr (ys, office, freelance) \<and>
         (office_initial_monthly_net_salary p = 200000 \<and> office_bonus_months p = 2 \<and>
          office_raise_rate p = 0.02 \<longrightarrow>
            office ! 0 = 2800000 \<and> (1 < length office \<longrightarrow> office ! 1 = 2800000 * 1.02))"
proof -
  from assms(2) have off: "office = income_office p"
    by (simp add: calculate_annual_income_Inr)
  with assms(3) have i: "i < num_years p" by (simp add: length_income_office)
  have nth: "office ! k = spec_monthly_salary p k * (12 + office_bonus_months p)"
    if "k < num_years p" for k
    using that by (simp add: off nth_income_office spec_monthly_salary_eq)
  have "office ! 0 = spec_monthly_salary p 0 * (12 + office_bonus_months p)"
    using i by (intro nth) simp
  moreover have "office ! 1 = spec_monthly_salary p 1 * (12 + office_bonus_months p)"
    if "1 < length office"
    using that by (intro nth) (simp add: off length_income_office)
  ultimately show ?thesis
    using nth [OF i] assms(2) by (auto simp: calculate_annual_income_employee_rate)
qed

text \<open>The theorem on the default parameters over two years, at the second year.\<close>

theorem office_recurrence_witness:
  "age_start (main_params\<lparr>age_end := 23\<rparr>) \<le> age_end (main_params\<lparr>age_end := 23\<rparr>) \<and>
   calculate_annual_income (main_params\<lparr>age_end := 23\<rparr>) =
     Inr ([22, 23], [2800000, 2856000], [0, 2028240]) \<and>
   [2800000, 2856000 :: real] ! 1 = spec_monthly_salary (main_params\<lparr>age_end := 23\<rparr>) 1 * 14 \<and>
   calculate_annual_income (main_params\<lparr>age_end := 23, deduction_rate_employee := 0.5\<rparr>) =
     Inr ([22, 23], [2800000, 2856000], [0, 2028240]) \<and>
   [2800000, 2856000 :: real] ! 1 = 2800000 * 1.02"
proof -
  have h1: "age_start (main_params\<lparr>age_end := 23\<rparr>) \<le> age_end (main_params\<lparr>age_end := 23\<rparr>)"
    by (simp add: main_params_def)
  have h3: "1 < length [2800000, 2856000 :: real]" by simp
  have v: "office_initial_monthly_net_salary (main_params\<lparr>age_end := 23\<rparr>) = 200000"
    "office_bonus_months (main_params\<lparr>age_end := 23\<rparr>) = 2"
    "office_raise_rate (main_params\<lparr>age_end := 23\<rparr>) = 0.02"
    by (simp_all add: main_params_def)
  from office_recurrence [OF h1 two_years h3, of "0.5"] h1 two_years v show ?thesis
    by simp
qed

subsection \<open>C4: the learning period\<close>

text \<open>
  Claim C4. When the projection returns, the freelance income of year \<open>i\<close> is 0 if
  \<open>i\<close> is below the ceiling of the learning period in years; otherwise it is the net income
  of the hourly wage at \<open>i - freelance_learning_period_months / 12\<close> work years, a fractional
  number. With no learning period every year is computed from the wage at \<open>i\<close> work years;
  with a start at 22 and 6 months of learning the first year is 0.
\<close>

theorem learning_period_zeroing:
  assumes "age_start p \<le> age_end p"
    and "calculate_annual_income p = Inr (ys, office, freelance)"
    and "i < length freelance"
  shows "(real i < of_int \<lceil>freelance_learning_period_months p / 12\<rceil> \<longrightarrow> freelance ! i = 0) \<and>
         (\<not> real i < of_int \<lceil>freelance_learning_period_months p / 12\<rceil> \<longrightarrow>
            (\<exists>w. current_hourly_wage p (real i - freelance_learning_period_months p / 12) = Inr w \<and>
                 freelance ! i = net_income p w)) \<and>
         (freelance_learning_period_months p = 0 \<longrightarrow>
            (\<exists>w. current_hourly_wage p (real i) = Inr w \<and> freelance ! i = net_income p w)) \<and>
         (age_start p = 22 \<and> freelance_learning_period_months p = 6 \<longrightarrow> freelance ! 0 = 0)"
proof -
  from assms(2) have fl: "income_freelance p = Inr freelance"
    by (simp add: calculate_annual_income_Inr)
  from assms(3) have i: "i < num_years p" by (simp add: length_income_freelance [OF fl])
  then have z: "0 < num_years p" by simp
  have yi: "freelance_year p i = Inr (freelance ! i)" by (rule nth_income_freelance [OF fl i])
  have y0: "freelance_year p 0 = Inr (freelance ! 0)" by (rule nth_income_freelance [OF fl z])
  have learning: "freelance ! i = 0"
    if "real i < of_int \<lceil>freelance_learning_period_months p / 12\<rceil>"
    using yi that by (simp add: freelance_year_def)
  have working: "\<exists>w. current_hourly_wage p (real i - freelance_learning_period_months p / 12) = Inr w \<and>
      freelance ! i = net_income p w"
    if "\<not> real i < of_int \<lceil>freelance_learning_period_months p / 12\<rceil>"
    using yi that by (auto simp: freelance_year_def split: sum.splits)
  have none: "\<exists>w. current_hourly_wage p (real i) = Inr w \<and> freelance ! i = net_income p w"
    if "freelance_learning_period_months p = 0"
    using working that by simp
  have six: "freelance ! 0 = 0" if "freelance_learning_period_months p = 6"
    using y0 that by (simp add: freelance_year_def)
  from learning working none six show ?thesis by blast
qed

text \<open>
  The theorem on the default parameters over two years: the first year is zeroed, the
  second is computed at half a work year.
\<close>

theorem learning_period_zeroing_witness:
  "age_start (main_params\<lparr>age_end := 23\<rparr>) \<le> age_end (main_params\<lparr>age_end := 23\<rparr>) \<and>
   calculate_annual_income (main_params\<lparr>age_end := 23\<rparr>) =
     Inr ([22, 23], [2800000, 2856000], [0, 2028240]) \<and>
   age_start (main_params\<lparr>age_end := 23\<rparr>) = 22 \<and>
   freelance_learning_period_months (main_params\<lparr>age_end := 23\<rparr>) = 6 \<and>
   [0, 2028240 :: real] ! 0 = 0 \<and>
   \<not> real 1 < of_int \<lceil>freelance_learning_period_months (main_params\<lparr>age_end := 23\<rparr>) / 12\<rceil> \<and>
   current_hourly_wage (main_params\<lparr>age_end := 23\<rparr>) (1 / 2) = Inr 1565 \<and>
   [0, 2028240 :: real] ! 1 = net_income (main_params\<lparr>age_end := 23\<rparr>) 1565"
proof -
  have h1: "age_start (main_params\<lparr>age_end := 23\<rparr>) \<le> age_end (main_params\<lparr>age_end := 23\<rparr>)"
    by (simp add: main_params_def)
  have h3: "1 < length [0, 2028240 :: real]" by simp
  have v: "age_start (main_params\<lparr>age_end := 23\<rparr>) = 22"
    "freelance_learning_period_months (main_params\<lparr>age_end := 23\<rparr>) = 6"
    by (simp_all add: main_params_def)
  have w: "\<not> real 1 < of_int \<lceil>freelance_learning_period_months (main_params\<lparr>age_end := 23\<rparr>) / 12\<rceil>"
    by (simp add: v)
  from learning_period_zeroing [OF h1 two_years h3] v
  have "[0, 2028240 :: real] ! 0 = 0" by blast
  moreover from learning_period_zeroing [OF h1 two_years h3] w
  obtain x where "current_hourly_wage (main_params\<lparr>age_end := 23\<rparr>)
        (real 1 - freelance_learning_period_months (main_params\<lparr>age_end := 23\<rparr>) / 12) = Inr x"
    and "[0, 2028240 :: real] ! 1 = net_income (main_params\<lparr>age_end := 23\<rparr>) x"
    by blast
  then have "[0, 2028240 :: real] ! 1 = net_income (main_params\<lparr>age_end := 23\<rparr>) 1565"
    using two_years_wage by (simp add: v)
  ultimately show ?thesis using h1 two_years v w two_years_wage by blast
qed

subsection \<open>C5: the two wage formulas at the phase boundary\<close>

text \<open>
  Claim C5. With a positive number of years to the target, the ramp branch is the quadratic
  interpolation, and at \<open>work_years = freelance_target_reach_years\<close> the ramp branch and
  the post-target branch both give the target wage, which is also what the wage
  computation returns there.
\<close>

theorem ramp_continuity:
  assumes "0 < freelance_target_reach_years p"
  shows "ramp_wage p work_years =
           Inr (freelance_initial_hourly_wage p +
                (freelance_target_hourly_wage p - freelance_initial_hourly_wage p) *
                (work_years / freelance_target_reach_years p)\<^sup>2) \<and>
         ramp_wage p (freelance_target_reach_years p) = Inr (freelance_target_hourly_wage p) \<and>
         post_target_wage p (freelance_target_reach_years p) = Inr (freelance_target_hourly_wage p) \<and>
         current_hourly_wage p (freelance_target_reach_years p) = Inr (freelance_target_hourly_wage p)"
  using assms by (simp add: ramp_wage_eq post_target_wage_boundary current_hourly_wage_def)

text \<open>The theorem on the default parameters: 5 years to the target wage of 8000.\<close>

theorem ramp_continuity_witness:
  "0 < freelance_target_reach_years main_params \<and>
   ramp_wage main_params 5 = Inr 8000 \<and>
   post_target_wage main_params 5 = Inr 8000 \<and>
   current_hourly_wage main_params 5 = Inr 8000"
proof -
  have h: "0 < freelance_target_reach_years main_params" by (simp add: main_params_def)
  have v: "freelance_target_reach_years main_params = 5"
    "freelance_target_hourly_wage main_params = 8000"
    by (simp_all add: main_params_def)
  from ramp_continuity [OF h, of 5] h show ?thesis by (simp add: v)
qed

subsection \<open>C6: an immediate target\<close>

text \<open>
  Claim C6. With \<open>freelance_target_reach_years = 0\<close> the ratio is 1 by the \<^verbatim>\<open>else\<close> of
  the conditional expression, whatever the work years, so the division is not evaluated;
  the wage at 0 work years is the target wage; and neither the wage computation nor the
  projection raises ZeroDivisionError.
\<close>

theorem immediate_target:
  assumes "freelance_target_reach_years p = 0"
  shows "ramp_ratio p work_years = Inr 1 \<and>
         current_hourly_wage p 0 = Inr (freelance_target_hourly_wage p) \<and>
         current_hourly_wage p work_years \<noteq> Inl ZeroDivisionError \<and>
         calculate_annual_income p \<noteq> Inl ZeroDivisionError"
proof -
  from assms have "ramp_ratio p work_years = Inr 1"
    by (simp add: ramp_ratio_def)
  moreover from assms have "current_hourly_wage p 0 = Inr (freelance_target_hourly_wage p)"
    by (simp add: current_hourly_wage_def ramp_wage_def ramp_ratio_def)
  ultimately show ?thesis
    by (simp add: current_hourly_wage_no_division_fault calculate_annual_income_no_division_fault)
qed

text \<open>The theorem on the default parameters with the years to the target set to 0.\<close>

theorem immediate_target_witness:
  "freelance_target_reach_years (main_params\<lparr>freelance_target_reach_years := 0\<rparr>) = 0 \<and>
   ramp_ratio (main_params\<lparr>freelance_target_reach_years := 0\<rparr>) 0 = Inr 1 \<and>
   current_hourly_wage (main_params\<lparr>freelance_target_reach_years := 0\<rparr>) 0 = Inr 8000 \<and>
   calculate_annual_income (main_params\<lparr>freelance_target_reach_years := 0\<rparr>) \<noteq> Inl ZeroDivisionError"
proof -
  have h: "freelance_target_reach_years (main_params\<lparr>freelance_target_reach_years := 0\<rparr>) = 0"
    by simp
  have v: "freelance_target_hourly_wage (main_params\<lparr>freelance_target_reach_years := 0\<rparr>) = 8000"
    by (simp add: main_params_def)
  from immediate_target [OF h, of 0] h show ?thesis by (simp add: v)
qed

subsection \<open>C7: cumulative income\<close>

text \<open>
  Claim C7. \<^verbatim>\<open>calculate_cumulative_income\<close> has no failing branch: it returns the running
  sums of the office series and of the freelance series, each computed on its own. The
  running sum of a series \<open>xs\<close> has the length of \<open>xs\<close>, its element \<open>i\<close> is the sum of
  the elements of \<open>xs\<close> at the indices \<open>0, ..., i\<close>; the empty series gives the empty
  series, and \<open>[100, 200, 0, 300]\<close> gives \<open>[100, 300, 300, 600]\<close>.
\<close>

theorem calculate_cumulative_income_running_sums:
  "fst (calculate_cumulative_income ys office freelance) = np_cumsum office \<and>
   snd (calculate_cumulative_income ys office freelance) = np_cumsum freelance \<and>
   length (np_cumsum xs) = length xs \<and>
   (\<forall>i<length xs. np_cumsum xs ! i = (\<Sum>j\<le>i. xs ! j)) \<and>
   np_cumsum [] = [] \<and>
   np_cumsum [100, 200, 0, 300] = [100, 300, 300, 600]"
  by (simp add: calculate_cumulative_income_def length_np_cumsum nth_np_cumsum)
    (simp add: np_cumsum_def)

text \<open>The theorem on two series of three years.\<close>

theorem calculate_cumulative_income_running_sums_witness:
  "fst (calculate_cumulative_income [22, 23, 24] [5, 7, 11] [0, 1, 2]) ! 2 = 5 + 7 + 11 \<and>
   snd (calculate_cumulative_income [22, 23, 24] [5, 7, 11] [0, 1, 2]) ! 1 = 0 + 1"
proof -
  have a: "(2::nat) < length [5, 7, 11 :: real]" and b: "(1::nat) < length [0, 1, 2 :: real]"
    by simp_all
  have s2: "{..2::nat} = {0, 1, 2}" and s1: "{..1::nat} = {0, 1}" by auto
  from calculate_cumulative_income_running_sums [of "[22, 23, 24]" "[5, 7, 11]" "[0, 1, 2]" "[5, 7, 11]"] a
  have "fst (calculate_cumulative_income [22, 23, 24] [5, 7, 11] [0, 1, 2]) ! 2 = (\<Sum>j\<le>2. [5, 7, 11 :: real] ! j)"
    by simp
  moreover
  from calculate_cumulative_income_running_sums [of "[22, 23, 24]" "[5, 7, 11]" "[0, 1, 2]" "[0, 1, 2]"] b
  have "snd (calculate_cumulative_income [22, 23, 24] [5, 7, 11] [0, 1, 2]) ! 1 = (\<Sum>j\<le>1. [0, 1, 2 :: real] ! j)"
    by simp
  ultimately show ?thesis by (simp add: s1 s2)
qed

subsection \<open>C8: lengths of the outputs\<close>

text \<open>
  Claim C8. When \<open>age_start \<le> age_end\<close> and the projection returns, the three outputs
  have the same length \<open>age_end - age_start + 1\<close>, and the years are the integers from
  \<open>age_start\<close> to \<open>age_end\<close>.
\<close>

theorem series_lengths:
  assumes "age_start p \<le> age_end p"
    and "calculate_annual_income p = Inr (ys, office, freelance)"
  shows "length ys = length office \<and> length office = length freelance \<and>
         int (length freelance) = age_end p - age_start p + 1 \<and>
         ys = [age_start p..age_end p]"
  using assms
  by (auto simp: calculate_annual_income_Inr length_income_office length_income_freelance
      years_eq num_years_eq)

text \<open>The theorem on the default parameters over two years.\<close>

theorem series_lengths_witness:
  "age_start (main_params\<lparr>age_end := 23\<rparr>) \<le> age_end (main_params\<lparr>age_end := 23\<rparr>) \<and>
   calculate_annual_income (main_params\<lparr>age_end := 23\<rparr>) =
     Inr ([22, 23], [2800000, 2856000], [0, 2028240]) \<and>
   length [22, 23 :: int] = length [2800000, 2856000 :: real] \<and>
   length [2800000, 2856000 :: real] = length [0, 2028240 :: real] \<and>
   int (length [0, 2028240 :: real]) = 23 - 22 + 1 \<and>
   [22, 23] = [age_start (main_params\<lparr>age_end := 23\<rparr>)..age_end (main_params\<lparr>age_end := 23\<rparr>)]"
proof -
  have h1: "age_start (main_params\<lparr>age_end := 23\<rparr>) \<le> age_end (main_params\<lparr>age_end := 23\<rparr>)"
    by (simp add: main_params_def)
  have a: "age_start (main_params\<lparr>age_end := 23\<rparr>) = 22" "age_end (main_params\<lparr>age_end := 23\<rparr>) = 23"
    by (simp_all add: main_params_def)
  from series_lengths [OF h1 two_years] h1 two_years show ?thesis
    unfolding a by simp
qed

subsection \<open>C9: the office loop and its closed form\<close>

text \<open>
  Claim C9. When the projection returns, the office income that the loop stores for
  year \<open>i\<close> is the closed form
  \<open>office_initial_monthly_net_salary * (1 + office_raise_rate) ^ i * (12 + office_bonus_months)\<close>.
\<close>

theorem office_loop_refines_closed_form:
  assumes "age_start p \<le> age_end p"
    and "calculate_annual_income p = Inr (ys, office, freelance)"
    and "i < length office"
  shows "office ! i = spec_office_closed_form p i"
proof -
  from assms(2) have off: "office = income_office p"
    by (simp add: calculate_annual_income_Inr)
  with assms(3) have "i < num_years p" by (simp add: length_income_office)
  then show ?thesis by (simp add: off nth_income_office spec_office_closed_form_def)
qed

text \<open>The theorem on the default parameters over two years, at the second year.\<close>

theorem office_loop_refines_closed_form_witness:
  "age_start (main_params\<lparr>age_end := 23\<rparr>) \<le> age_end (main_params\<lparr>age_end := 23\<rparr>) \<and>
   calculate_annual_income (main_params\<lparr>age_end := 23\<rparr>) =
     Inr ([22, 23], [2800000, 2856000], [0, 2028240]) \<and>
   [2800000, 2856000 :: real] ! 1 = spec_office_closed_form (main_params\<lparr>age_end := 23\<rparr>) 1 \<and>
   spec_office_closed_form (main_params\<lparr>age_end := 23\<rparr>) 1 = 200000 * 1.02 * 14"
proof -
  have h1: "age_start (main_params\<lparr>age_end := 23\<rparr>) \<le> age_end (main_params\<lparr>age_end := 23\<rparr>)"
    by (simp add: main_params_def)
  have h3: "1 < length [2800000, 2856000 :: real]" by simp
  have c: "spec_office_closed_form (main_params\<lparr>age_end := 23\<rparr>) 1 = 200000 * 1.02 * 14"
    by (simp add: spec_office_closed_form_def main_params_def)
  from office_loop_refines_closed_form [OF h1 two_years h3] h1 two_years c show ?thesis
    by simp
qed

subsection \<open>C10: the growth type\<close>

text \<open>
  Claim C10. Two parameter records that differ only in
  \<^verbatim>\<open>freelance_hourly_wage_growth_type\<close> have the same result, error or outputs: the field is
  read and never used.
\<close>

theorem growth_type_ignored:
  "calculate_annual_income (p\<lparr>freelance_hourly_wage_growth_type := g\<rparr>) = calculate_annual_income p"
  by (rule calculate_annual_income_growth_type)

end
